theory Spec2Isabelle
  imports Main "HOL-Library.Multiset"
begin

section \<open>Release detail utilities: \<^verbatim>\<open>views/releases/detail/utils.tsx\<close>\<close>

text \<open>
  A read of a property of \<^verbatim>\<open>undefined\<close>, and a call of a value that is not a function,
  is the error \<open>TypeError\<close>. The localisation function \<^verbatim>\<open>t\<close> of \<^verbatim>\<open>app/locale\<close> is a
  parameter \<open>t\<close>.
\<close>

datatype error = TypeError

text \<open>\<^verbatim>\<open>arr.reduce(f, init)\<close>: a left fold that stops at the first exception.\<close>

fun reduce :: "('b \<Rightarrow> 'a \<Rightarrow> error + 'b) \<Rightarrow> 'a list \<Rightarrow> 'b \<Rightarrow> error + 'b" where
  "reduce f [] acc = Inr acc"
| "reduce f (x # xs) acc = (case f acc x of Inl e \<Rightarrow> Inl e | Inr acc' \<Rightarrow> reduce f xs acc')"

subsection \<open>Objects used as dictionaries\<close>

text \<open>
  The grouping functions start from the object literal \<^verbatim>\<open>{}\<close>, test a key with
  \<^verbatim>\<open>obj.hasOwnProperty(key)\<close> and read and write it with \<^verbatim>\<open>obj[key]\<close>. Such an object
  has its own properties and a prototype. The prototype is \<^verbatim>\<open>Object.prototype\<close>
  (\<open>None\<close>) until an assignment to the key \<^verbatim>\<open>__proto__\<close> replaces it: that key is an
  accessor of \<^verbatim>\<open>Object.prototype\<close>, so \<^verbatim>\<open>obj['__proto__'] = v\<close> makes \<open>v\<close> the prototype
  and creates no own property, and \<^verbatim>\<open>obj['__proto__']\<close> reads the prototype. In these
  functions the values stored in an object and its replaced prototype have the same
  type.
\<close>

record 'v JSObject =
  ownProps :: "string \<rightharpoonup> 'v"
  proto :: "'v option"

text \<open>The object literal \<^verbatim>\<open>{}\<close>.\<close>

definition emptyObject :: "'v JSObject" where
  "emptyObject = \<lparr>ownProps = Map.empty, proto = None\<rparr>"

definition hasOwn :: "'v JSObject \<Rightarrow> string \<Rightarrow> bool" where
  "hasOwn obj key = (case ownProps obj key of None \<Rightarrow> False | Some v \<Rightarrow> True)"

text \<open>
  The call \<^verbatim>\<open>obj.hasOwnProperty(key)\<close>. The method is looked up on the object first
  and then along its prototypes. An own property \<^verbatim>\<open>hasOwnProperty\<close> holds a stored value
  (an array or an object), which is not a function, so the call throws; the same holds
  when a replaced prototype has such a property, which \<open>shadowedBy\<close> tells. Otherwise the
  method of \<^verbatim>\<open>Object.prototype\<close> answers whether the key is an own property.
\<close>

definition callHasOwnProperty :: "('v \<Rightarrow> bool) \<Rightarrow> 'v JSObject \<Rightarrow> string \<Rightarrow> error + bool" where
  "callHasOwnProperty shadowedBy obj key =
     (if hasOwn obj ''hasOwnProperty'' then Inl TypeError
      else if (case proto obj of None \<Rightarrow> False | Some p \<Rightarrow> shadowedBy p) then Inl TypeError
      else Inr (hasOwn obj key))"

text \<open>
  The assignment \<^verbatim>\<open>obj[key] = v\<close>. Every other property that the object can inherit
  here is a writable data property, so the assignment creates or overwrites an own
  property.
\<close>

definition setProperty :: "'v JSObject \<Rightarrow> string \<Rightarrow> 'v \<Rightarrow> 'v JSObject" where
  "setProperty obj key v =
     (if key = ''__proto__'' then obj\<lparr>proto := Some v\<rparr>
      else obj\<lparr>ownProps := (ownProps obj)(key \<mapsto> v)\<rparr>)"

text \<open>
  The read \<^verbatim>\<open>obj[key]\<close> of a key that the code has just made sure of: the own
  property, or the replaced prototype for \<^verbatim>\<open>__proto__\<close>.
\<close>

definition getProperty :: "'v JSObject \<Rightarrow> string \<Rightarrow> 'v option" where
  "getProperty obj key = (if key = ''__proto__'' then proto obj else ownProps obj key)"

text \<open>The two names on which these objects do not behave as a dictionary.\<close>

definition reservedName :: "string \<Rightarrow> bool" where
  "reservedName key = (key = ''hasOwnProperty'' \<or> key = ''__proto__'')"

subsection \<open>Commits grouped by repository\<close>

record Repository =
  name :: "string option"

record Commit =
  commitId :: string
  repository :: "Repository option"

type_synonym CommitsByRepository = "Commit list JSObject"

text \<open>\<^verbatim>\<open>commit.repository?.name ?? t('unknown')\<close>\<close>

definition repositoryName :: "(string \<Rightarrow> string) \<Rightarrow> Commit \<Rightarrow> string" where
  "repositoryName t commit =
     (case repository commit of
        None \<Rightarrow> t ''unknown''
      | Some r \<Rightarrow> (case name r of None \<Rightarrow> t ''unknown'' | Some n \<Rightarrow> n))"

text \<open>
  The callback of the \<^verbatim>\<open>reduce\<close> in \<^verbatim>\<open>getCommitsByRepository\<close>. A replaced prototype is
  an array here, which has no property \<^verbatim>\<open>hasOwnProperty\<close> of its own. \<^verbatim>\<open>push\<close> changes
  the array that \<^verbatim>\<open>commitsByRepository[repositoryName]\<close> reads, in place.
\<close>

definition commitsReducer ::
  "(string \<Rightarrow> string) \<Rightarrow> CommitsByRepository \<Rightarrow> Commit \<Rightarrow> error + CommitsByRepository" where
  "commitsReducer t commitsByRepository commit =
     (let key = repositoryName t commit
      in case callHasOwnProperty (\<lambda>array. False) commitsByRepository key of
           Inl e \<Rightarrow> Inl e
         | Inr present \<Rightarrow>
             (let ensured = (if present then commitsByRepository
                             else setProperty commitsByRepository key [])
              in case getProperty ensured key of
                   None \<Rightarrow> Inl TypeError
                 | Some bucket \<Rightarrow> Inr (setProperty ensured key (bucket @ [commit]))))"

definition getCommitsByRepository ::
  "(string \<Rightarrow> string) \<Rightarrow> Commit list \<Rightarrow> error + CommitsByRepository" where
  "getCommitsByRepository t commitList = reduce (commitsReducer t) commitList emptyObject"

text \<open>The input commits filed under one key, in input order.\<close>

definition commitsOf :: "(string \<Rightarrow> string) \<Rightarrow> string \<Rightarrow> Commit list \<Rightarrow> Commit list" where
  "commitsOf t key commitList = filter (\<lambda>c. repositoryName t c = key) commitList"

text \<open>The grouping with one bucket for each key of the input, in input order.\<close>

definition groupedCommits :: "(string \<Rightarrow> string) \<Rightarrow> Commit list \<Rightarrow> CommitsByRepository" where
  "groupedCommits t commitList =
     \<lparr>ownProps = (\<lambda>key. if commitsOf t key commitList = [] then None
                         else Some (commitsOf t key commitList)),
      proto = None\<rparr>"

text \<open>A commit that carries no repository reference, or a reference without a name.\<close>

definition lacksRepository :: "Commit \<Rightarrow> bool" where
  "lacksRepository commit =
     (case repository commit of None \<Rightarrow> True | Some r \<Rightarrow> name r = None)"

text \<open>No commit of the list is filed under one of the two reserved names.\<close>

definition ordinaryKeys :: "(string \<Rightarrow> string) \<Rightarrow> Commit list \<Rightarrow> bool" where
  "ordinaryKeys t commitList = list_all (\<lambda>c. \<not> reservedName (repositoryName t c)) commitList"

text \<open>For the examples: a commit of the repository with the given name.\<close>

definition commitIn :: "string \<Rightarrow> string \<Rightarrow> Commit" where
  "commitIn ident repo = \<lparr>commitId = ident, repository = Some \<lparr>name = Some repo\<rparr>\<rparr>"

subsection \<open>File changes grouped by repository and file\<close>

record CommitAuthor =
  email :: "string option"
  authorName :: "string option"

record CommitFile =
  filename :: string
  repoName :: string
  author :: CommitAuthor
  type :: string

text \<open>
  The per-file summary \<^verbatim>\<open>{authors: {}, types: new Set()}\<close>. The authors are an object
  with the emails as keys; an assignment under the email \<^verbatim>\<open>__proto__\<close> makes the author
  its prototype.
\<close>

record FileSummary =
  authors :: "CommitAuthor JSObject"
  types :: "string set"

type_synonym FilesOfRepository = "FileSummary JSObject"

type_synonym FilesByRepository = "FilesOfRepository JSObject"

text \<open>\<^verbatim>\<open>if (author.email)\<close>: an absent or empty email is falsy.\<close>

fun truthy :: "string option \<Rightarrow> bool" where
  "truthy None = False"
| "truthy (Some []) = False"
| "truthy (Some (c # cs)) = True"

text \<open>
  The callback of the \<^verbatim>\<open>reduce\<close> in \<^verbatim>\<open>getFilesByRepository\<close>. A replaced prototype of
  \<^verbatim>\<open>filesByRepository\<close> is the object of a repository, which shadows the method when it
  has a file named \<^verbatim>\<open>hasOwnProperty\<close>; a replaced prototype of the object of a
  repository is a summary, which has the properties \<^verbatim>\<open>authors\<close> and \<^verbatim>\<open>types\<close> only. The
  assignments change the objects that \<^verbatim>\<open>filesByRepository[repoName]\<close> and
  \<^verbatim>\<open>filesByRepository[repoName][filename]\<close> read, in place.
\<close>

definition filesReducer :: "FilesByRepository \<Rightarrow> CommitFile \<Rightarrow> error + FilesByRepository" where
  "filesReducer filesByRepository file =
     (case callHasOwnProperty (\<lambda>files. hasOwn files ''hasOwnProperty'')
             filesByRepository (repoName file) of
        Inl e \<Rightarrow> Inl e
      | Inr repoPresent \<Rightarrow>
          (let withRepo = (if repoPresent then filesByRepository
                           else setProperty filesByRepository (repoName file) emptyObject)
           in case getProperty withRepo (repoName file) of
                None \<Rightarrow> Inl TypeError
              | Some files \<Rightarrow>
                  (case callHasOwnProperty (\<lambda>summary. False) files (filename file) of
                     Inl e \<Rightarrow> Inl e
                   | Inr filePresent \<Rightarrow>
                       (let withFile =
                              (if filePresent then files
                               else setProperty files (filename file)
                                      \<lparr>authors = emptyObject, types = {}\<rparr>)
                        in case getProperty withFile (filename file) of
                             None \<Rightarrow> Inl TypeError
                           | Some entry \<Rightarrow>
                               (let withAuthor =
                                      (if truthy (email (author file))
                                       then (case email (author file) of
                                               None \<Rightarrow> entry
                                             | Some e \<Rightarrow>
                                                 entry\<lparr>authors :=
                                                   setProperty (authors entry) e (author file)\<rparr>)
                                       else entry);
                                    withType =
                                      withAuthor\<lparr>types := insert (type file) (types withAuthor)\<rparr>
                                in Inr (setProperty withRepo (repoName file)
                                          (setProperty withFile (filename file) withType)))))))"

definition getFilesByRepository :: "CommitFile list \<Rightarrow> error + FilesByRepository" where
  "getFilesByRepository fileList = reduce filesReducer fileList emptyObject"











definition changeTo :: "string \<Rightarrow> string \<Rightarrow> CommitFile" where
  "changeTo repo file =
     \<lparr>filename = file, repoName = repo,
      author = \<lparr>email = Some ''ann@x.org'', authorName = Some ''Ann''\<rparr>,
      type = ''M''\<rparr>"

subsection \<open>Archiving a release\<close>

text \<open>
  The effects of \<^verbatim>\<open>archiveRelease\<close> on its collaborators, in the order in which they
  happen: the toasts of \<^verbatim>\<open>app/actionCreators/indicator\<close>, the request sent through the
  API client and the navigation. \<open>Post path status projects version\<close> is the request
  \<^verbatim>\<open>requestPromise(path, {method: 'POST', data: {status, projects, version}})\<close>.
  The API client is a parameter: the function \<open>api\<close> gives the outcome of such a
  request, resolved or rejected with an error object.
\<close>

record ResponseJSON =
  detail :: "string option"

record RequestError =
  responseJSON :: "ResponseJSON option"

datatype RequestOutcome = Resolved | Rejected RequestError

datatype Effect =
    AddLoadingMessage string
  | AddSuccessMessage string
  | AddErrorMessage string
  | Post string string "string list" string
  | HistoryPush string

text \<open>
  Modelled from the spec: the enumeration \<^verbatim>\<open>ReleaseStatus\<close> of \<^verbatim>\<open>app/types\<close> is not
  among the sources; the body of the archive call is \<^verbatim>\<open>{status: "archived", projects: [], version}\<close>.
\<close>

definition ReleaseStatus_Archived :: string where
  "ReleaseStatus_Archived = ''archived''"

text \<open>\<^verbatim>\<open>`/organizations/${orgId}/releases/`\<close>\<close>

definition releasesPath :: "string \<Rightarrow> string" where
  "releasesPath orgId = ''/organizations/'' @ orgId @ ''/releases/''"

text \<open>\<^verbatim>\<open>error.responseJSON?.detail ?? t('Release could not be be archived.')\<close>\<close>

definition errorMessage :: "(string \<Rightarrow> string) \<Rightarrow> RequestError \<Rightarrow> string" where
  "errorMessage t err =
     (case (case responseJSON err of None \<Rightarrow> None | Some body \<Rightarrow> detail body) of
        None \<Rightarrow> t ''Release could not be be archived.''
      | Some d \<Rightarrow> d)"

definition archiveRelease ::
  "(string \<Rightarrow> string) \<Rightarrow> (string \<Rightarrow> string \<Rightarrow> string list \<Rightarrow> string \<Rightarrow> RequestOutcome)
     \<Rightarrow> string \<Rightarrow> string \<Rightarrow> Effect list" where
  "archiveRelease t api orgId ver =
     [AddLoadingMessage (t ''Archiving Release...''),
      Post (releasesPath orgId) ReleaseStatus_Archived [] ver] @
     (case api (releasesPath orgId) ReleaseStatus_Archived [] ver of
        Resolved \<Rightarrow>
          [AddSuccessMessage (t ''Release was successfully archived.''),
           HistoryPush (releasesPath orgId)]
      | Rejected err \<Rightarrow> [AddErrorMessage (errorMessage t err)])"

fun isPost :: "Effect \<Rightarrow> bool" where
  "isPost (Post path st ps ver) = True"
| "isPost other = False"

section \<open>Release list: the \<^verbatim>\<open>ReleasesList\<close> view\<close>

subsection \<open>Data\<close>

text \<open>
  A release, with the fields of the \<^verbatim>\<open>Release\<close> payload that vary in the data of this
  view. The view itself reads \<^verbatim>\<open>version\<close> and \<^verbatim>\<open>projects[0].slug\<close> only.
\<close>

record ReleaseProject =
  slug :: string
  platform :: string
  hasHealthData :: bool

record Release =
  version :: string
  shortVersion :: string
  dateCreated :: string
  firstEvent :: "string option"
  lastEvent :: "string option"
  newGroups :: nat
  projects :: "ReleaseProject list"

text \<open>
  The component state. \<^verbatim>\<open>releases\<close> is \<^verbatim>\<open>undefined\<close> (\<open>None\<close>) until a payload is
  committed; \<^verbatim>\<open>remainingRequests\<close> is a number or \<^verbatim>\<open>undefined\<close>.
\<close>

record State =
  releases :: "Release list option"
  loadingHealth :: bool
  loading :: bool
  reloading :: bool
  remainingRequests :: "int option"
  releasesPageLinks :: "string option"

text \<open>
  A response handed to \<^verbatim>\<open>onRequestSuccess({stateKey, data, jqXHR})\<close>. \<^verbatim>\<open>jqXHR\<close> may be
  absent; when present it is its \<^verbatim>\<open>getResponseHeader\<close>.
\<close>

record Response =
  stateKey :: string
  data :: "Release list"
  jqXHR :: "(string \<Rightarrow> string option) option"

text \<open>A value of \<^verbatim>\<open>location.query\<close>: a string, or an array for a repeated parameter.\<close>

datatype QueryValue = QString string | QArray "string list"

record Props =
  organizationSlug :: string
  locationQuery :: "string \<rightharpoonup> QueryValue"

text \<open>The query of an endpoint: the picked URL parameters and the four fixed ones.\<close>

record EndpointQuery =
  picked :: "string \<rightharpoonup> QueryValue"
  summaryStatsPeriod :: "QueryValue option"
  per_page :: nat
  health :: nat
  flatten :: nat

type_synonym Endpoint = "string \<times> string \<times> EndpointQuery"

subsection \<open>Endpoints and the response handler\<close>

definition getSort :: "Props \<Rightarrow> string" where
  "getSort props =
     (case locationQuery props ''sort'' of Some (QString sortKey) \<Rightarrow> sortKey | _ \<Rightarrow> ''date'')"

definition getQuery :: "Props \<Rightarrow> string option" where
  "getQuery props =
     (case locationQuery props ''query'' of Some (QString query) \<Rightarrow> Some query | _ \<Rightarrow> None)"

definition getEndpoints :: "Props \<Rightarrow> Endpoint list" where
  "getEndpoints props =
     (let statsPeriod = locationQuery props ''statsPeriod'';
          sortKey = getSort props;
          query = \<lparr>picked = locationQuery props |`
                     {''project'', ''environment'', ''cursor'', ''query'', ''sort'',
                      ''healthStatsPeriod'', ''healthStat''},
                   summaryStatsPeriod = statsPeriod,
                   per_page = 25,
                   health = 1,
                   flatten = (if sortKey = ''date'' then 0 else 1)\<rparr>;
          endpoints = [(''releasesWithHealth'', releasesPath (organizationSlug props), query)]
      in if sortKey = ''date''
         then endpoints @
              [(''releasesWithoutHealth'', releasesPath (organizationSlug props),
                query\<lparr>health := 0\<rparr>)]
         else endpoints)"

definition onRequestSuccess :: "State \<Rightarrow> Response \<Rightarrow> State" where
  "onRequestSuccess state resp =
     (if stateKey resp = ''releasesWithHealth'' \<or> remainingRequests state = Some 1
      then state\<lparr>reloading := False,
                 loading := False,
                 loadingHealth := (stateKey resp = ''releasesWithoutHealth''),
                 releases := Some (data resp),
                 releasesPageLinks :=
                   (case jqXHR resp of None \<Rightarrow> None
                    | Some getResponseHeader \<Rightarrow> getResponseHeader ''Link'')\<rparr>
      else state)"

subsection \<open>The base class\<close>

text \<open>
  Modelled from the spec: the base class \<^verbatim>\<open>AsyncView\<close>, which issues the requests of
  \<^verbatim>\<open>getEndpoints\<close>, keeps \<^verbatim>\<open>remainingRequests\<close> and calls \<^verbatim>\<open>onRequestSuccess\<close>, is not
  among the sources. The spec has the states Idle, Loading (both pending),
  PartiallyLoaded (list arrived, health pending) and Loaded, and a list-only response
  that arrives while health is pending commits provisionally with \<^verbatim>\<open>loadingHealth=true\<close>.
  The view says the same: it fetches the releases without health and then the health
  lazily, and renders the cards with health placeholders while \<^verbatim>\<open>loadingHealth\<close> is set.
  The handler commits a list-only payload only where it reads
  \<^verbatim>\<open>remainingRequests === 1\<close>, so the counter it reads is the number of requests still
  pending after the one that arrived: a fetch sets it to the number of endpoints, and
  an arrival lowers it by one before the handler runs.
\<close>

definition fetchData :: "Props \<Rightarrow> State \<Rightarrow> State \<times> Endpoint list" where
  "fetchData props state =
     (state\<lparr>loading := True, remainingRequests := Some (int (length (getEndpoints props)))\<rparr>,
      getEndpoints props)"

text \<open>
  Modelled from the spec: the arrival of a response in \<^verbatim>\<open>AsyncView\<close>, which is not among
  the sources. The arrival is counted, then the handler of the view runs.
\<close>

definition handleRequestSuccess :: "State \<Rightarrow> Response \<Rightarrow> State" where
  "handleRequestSuccess state resp =
     onRequestSuccess
       (state\<lparr>remainingRequests := map_option (\<lambda>n. n - 1) (remainingRequests state)\<rparr>) resp"

subsection \<open>A run of the loader, for the examples\<close>

text \<open>
  The view without URL parameters (so sorted by \<^verbatim>\<open>date\<close>), its state before anything is
  fetched, and the two responses: the same release with and without health data.
\<close>

definition dateProps :: Props where
  "dateProps = \<lparr>organizationSlug = ''acme'', locationQuery = Map.empty\<rparr>"

definition idleState :: State where
  "idleState =
     \<lparr>releases = None, loadingHealth = False, loading = False, reloading = False,
      remainingRequests = None, releasesPageLinks = None\<rparr>"

definition exampleRelease :: "bool \<Rightarrow> Release" where
  "exampleRelease withHealth =
     \<lparr>version = ''app@1.0'', shortVersion = ''app@1.0'',
      dateCreated = ''2020-11-06T08:37:14Z'', firstEvent = None, lastEvent = None,
      newGroups = 0,
      projects = [\<lparr>slug = ''app'', platform = ''native'', hasHealthData = withHealth\<rparr>]\<rparr>"

definition healthResponse :: Response where
  "healthResponse =
     \<lparr>stateKey = ''releasesWithHealth'', data = [exampleRelease True], jqXHR = None\<rparr>"

definition listResponse :: Response where
  "listResponse =
     \<lparr>stateKey = ''releasesWithoutHealth'', data = [exampleRelease False], jqXHR = None\<rparr>"

subsection \<open>Rendering the body\<close>

text \<open>
  What \<^verbatim>\<open>renderInnerBody\<close> returns: the loading indicator, an empty-state warning with
  its text, the landing page of the organization, or one card per release. A card has
  the release, the organization slug, the flags and its React key.
\<close>

record ReleaseCard =
  release :: Release
  orgSlug :: string
  cardReloading :: bool
  cardKey :: string
  showHealthPlaceholders :: bool

datatype Element =
    LoadingIndicator
  | EmptyStateWarning string
  | ReleaseLanding string
  | ReleaseCards "ReleaseCard list"

definition shouldShowLoadingIndicator :: "State \<Rightarrow> bool" where
  "shouldShowLoadingIndicator state =
     ((loading state \<and> \<not> reloading state) \<or>
      (loading state \<and> (case releases state of None \<Rightarrow> True | Some rs \<Rightarrow> rs = [])))"

text \<open>
  \<^verbatim>\<open>renderEmptyMessage\<close>. \<^verbatim>\<open>getRelativeSummary\<close>, \<^verbatim>\<open>DEFAULT_STATS_PERIOD\<close> and the
  string method \<^verbatim>\<open>toLowerCase\<close> are parameters. \<^verbatim>\<open>statsPeriod || DEFAULT_STATS_PERIOD\<close>
  takes the default for an absent or empty parameter.
\<close>

definition renderEmptyMessage ::
  "(string \<Rightarrow> string) \<Rightarrow> (QueryValue \<Rightarrow> string) \<Rightarrow> QueryValue \<Rightarrow> (string \<Rightarrow> string)
     \<Rightarrow> Props \<Rightarrow> Element" where
  "renderEmptyMessage t getRelativeSummary DEFAULT_STATS_PERIOD toLowerCase props =
     (let statsPeriod = locationQuery props ''statsPeriod'';
          searchQuery = getQuery props;
          activeSort = getSort props
      in if (case searchQuery of None \<Rightarrow> False | Some q \<Rightarrow> q \<noteq> [])
         then EmptyStateWarning
                (t ''There are no releases that match'' @ '': '' @ [CHR 39] @
                 (case searchQuery of None \<Rightarrow> [] | Some q \<Rightarrow> q) @ [CHR 39] @ ''.'')
         else if activeSort = ''users_24h''
         then EmptyStateWarning
                (t ''There are no releases with active user data (users in the last 24 hours).'')
         else if activeSort \<noteq> ''date''
         then EmptyStateWarning
                (t ''There are no releases with data in the'' @ '' '' @
                 toLowerCase (getRelativeSummary
                    (case statsPeriod of
                       None \<Rightarrow> DEFAULT_STATS_PERIOD
                     | Some (QString []) \<Rightarrow> DEFAULT_STATS_PERIOD
                     | Some p \<Rightarrow> p)) @ ''.'')
         else if statsPeriod \<noteq> None \<and> statsPeriod \<noteq> Some (QString ''14d'')
         then EmptyStateWarning (t ''There are no releases.'')
         else ReleaseLanding (organizationSlug props))"

text \<open>The array literal that \<^verbatim>\<open>renderInnerBody\<close> binds to its local \<^verbatim>\<open>releases\<close>.\<close>

definition renderInnerBody_releases :: "Release list" where
  "renderInnerBody_releases =
    [\<lparr>version = ''Premiere Pro@14.7.0+8'',
      shortVersion = ''Premiere Pro@14.7.0+8'',
      dateCreated = ''2020-11-06T08:37:14Z'',
      firstEvent = Some ''2020-11-06T08:37:14Z'', lastEvent = Some ''2020-11-06T08:37:14Z'',
      newGroups = 1,
      projects = [\<lparr>slug = ''dva-premierepro'', platform = ''native'', hasHealthData = True\<rparr>]\<rparr>,
     \<lparr>version = ''Premiere Pro (Beta)@14.7.0+8'',
      shortVersion = ''Premiere Pro (Beta)@14.7.0+8'',
      dateCreated = ''2020-11-06T06:02:26Z'',
      firstEvent = Some ''2020-11-06T06:02:26Z'', lastEvent = Some ''2020-11-06T06:47:02Z'',
      newGroups = 1,
      projects = [\<lparr>slug = ''dva-premierepro'', platform = ''native'', hasHealthData = True\<rparr>]\<rparr>,
     \<lparr>version = ''Premiere Pro@14.6.0+49'',
      shortVersion = ''Premiere Pro@14.6.0+49'',
      dateCreated = ''2020-11-05T23:12:21.451819Z'',
      firstEvent = Some ''2020-11-05T23:12:21Z'', lastEvent = Some ''2020-11-06T09:00:52Z'',
      newGroups = 3,
      projects = [\<lparr>slug = ''dva-premierepro'', platform = ''native'', hasHealthData = True\<rparr>]\<rparr>,
     \<lparr>version = ''Premiere Pro (Beta)@14.7.0+7'',
      shortVersion = ''Premiere Pro (Beta)@14.7.0+7'',
      dateCreated = ''2020-11-05T05:56:18Z'',
      firstEvent = Some ''2020-11-05T05:56:18Z'', lastEvent = Some ''2020-11-06T03:56:14Z'',
      newGroups = 6,
      projects = [\<lparr>slug = ''dva-premierepro'', platform = ''native'', hasHealthData = True\<rparr>]\<rparr>,
     \<lparr>version = ''Premiere Pro (Beta)@14.7.0+6'',
      shortVersion = ''Premiere Pro (Beta)@14.7.0+6'',
      dateCreated = ''2020-11-04T06:45:26Z'',
      firstEvent = Some ''2020-11-04T06:45:26Z'', lastEvent = Some ''2020-11-05T21:04:39Z'',
      newGroups = 6,
      projects = [\<lparr>slug = ''dva-premierepro'', platform = ''native'', hasHealthData = True\<rparr>]\<rparr>,
     \<lparr>version = ''Premiere Pro@14.7.0+6'',
      shortVersion = ''Premiere Pro@14.7.0+6'',
      dateCreated = ''2020-11-04T06:00:00Z'',
      firstEvent = None, lastEvent = None,
      newGroups = 0,
      projects = [\<lparr>slug = ''dva-premierepro'', platform = ''native'', hasHealthData = True\<rparr>]\<rparr>,
     \<lparr>version = ''Premiere Pro@14.6.0+48'',
      shortVersion = ''Premiere Pro@14.6.0+48'',
      dateCreated = ''2020-11-03T22:00:00Z'',
      firstEvent = Some ''2020-11-04T11:16:31Z'', lastEvent = Some ''2020-11-05T08:19:31Z'',
      newGroups = 2,
      projects = [\<lparr>slug = ''dva-premierepro'', platform = ''native'', hasHealthData = True\<rparr>]\<rparr>,
     \<lparr>version = ''Premiere Pro@14.7.0+1'',
      shortVersion = ''Premiere Pro@14.7.0+1'',
      dateCreated = ''2020-11-03T10:00:00Z'',
      firstEvent = None, lastEvent = None,
      newGroups = 0,
      projects = [\<lparr>slug = ''dva-premierepro'', platform = ''native'', hasHealthData = True\<rparr>]\<rparr>,
     \<lparr>version = ''Premiere Pro (Beta)@14.7.0+5'',
      shortVersion = ''Premiere Pro (Beta)@14.7.0+5'',
      dateCreated = ''2020-11-03T08:00:21Z'',
      firstEvent = Some ''2020-11-03T08:00:21Z'', lastEvent = Some ''2020-11-04T19:16:06Z'',
      newGroups = 1,
      projects = [\<lparr>slug = ''dva-premierepro'', platform = ''native'', hasHealthData = True\<rparr>]\<rparr>,
     \<lparr>version = ''14.1.0'',
      shortVersion = ''14.1.0'',
      dateCreated = ''2020-11-03T00:00:00Z'',
      firstEvent = None, lastEvent = None,
      newGroups = 0,
      projects = [\<lparr>slug = ''dva-premierepro'', platform = ''native'', hasHealthData = True\<rparr>]\<rparr>,
     \<lparr>version = ''Premiere Pro@14.7.0+4'',
      shortVersion = ''Premiere Pro@14.7.0+4'',
      dateCreated = ''2020-11-02T22:00:00Z'',
      firstEvent = None, lastEvent = None,
      newGroups = 0,
      projects = [\<lparr>slug = ''dva-premierepro'', platform = ''native'', hasHealthData = True\<rparr>]\<rparr>,
     \<lparr>version = ''Premiere Pro (Beta)@14.7.0+3'',
      shortVersion = ''Premiere Pro (Beta)@14.7.0+3'',
      dateCreated = ''2020-11-02T08:40:16Z'',
      firstEvent = Some ''2020-11-02T08:40:16Z'', lastEvent = Some ''2020-11-03T02:09:55Z'',
      newGroups = 2,
      projects = [\<lparr>slug = ''dva-premierepro'', platform = ''native'', hasHealthData = True\<rparr>]\<rparr>,
     \<lparr>version = ''Premiere Pro (Beta)@14.7.0+4'',
      shortVersion = ''Premiere Pro (Beta)@14.7.0+4'',
      dateCreated = ''2020-11-02T06:47:05Z'',
      firstEvent = Some ''2020-11-02T06:47:05Z'', lastEvent = Some ''2020-11-02T08:58:50Z'',
      newGroups = 2,
      projects = [\<lparr>slug = ''dva-premierepro'', platform = ''native'', hasHealthData = True\<rparr>]\<rparr>,
     \<lparr>version = ''Premiere Pro@14.7.0+3'',
      shortVersion = ''Premiere Pro@14.7.0+3'',
      dateCreated = ''2020-11-01T12:00:00Z'',
      firstEvent = None, lastEvent = None,
      newGroups = 0,
      projects = [\<lparr>slug = ''dva-premierepro'', platform = ''native'', hasHealthData = True\<rparr>]\<rparr>,
     \<lparr>version = ''Premiere Pro (Beta)@14.7.0+2'',
      shortVersion = ''Premiere Pro (Beta)@14.7.0+2'',
      dateCreated = ''2020-10-31T11:00:00Z'',
      firstEvent = None, lastEvent = None,
      newGroups = 0,
      projects = [\<lparr>slug = ''dva-premierepro'', platform = ''native'', hasHealthData = True\<rparr>]\<rparr>,
     \<lparr>version = ''Premiere Pro@14.6.0+47'',
      shortVersion = ''Premiere Pro@14.6.0+47'',
      dateCreated = ''2020-10-30T07:40:32Z'',
      firstEvent = Some ''2020-10-30T07:40:32Z'', lastEvent = Some ''2020-11-03T02:48:55Z'',
      newGroups = 3,
      projects = [\<lparr>slug = ''dva-premierepro'', platform = ''native'', hasHealthData = True\<rparr>]\<rparr>,
     \<lparr>version = ''Premiere Pro (Beta)@14.7.0+1'',
      shortVersion = ''Premiere Pro (Beta)@14.7.0+1'',
      dateCreated = ''2020-10-29T17:00:00Z'',
      firstEvent = Some ''2020-11-04T11:18:31Z'', lastEvent = Some ''2020-11-06T06:39:52Z'',
      newGroups = 0,
      projects = [\<lparr>slug = ''dva-premierepro'', platform = ''native'', hasHealthData = True\<rparr>]\<rparr>,
     \<lparr>version = ''Premiere Pro@14.6.0+46'',
      shortVersion = ''Premiere Pro@14.6.0+46'',
      dateCreated = ''2020-10-29T06:00:00Z'',
      firstEvent = None, lastEvent = None,
      newGroups = 0,
      projects = [\<lparr>slug = ''dva-premierepro'', platform = ''native'', hasHealthData = True\<rparr>]\<rparr>,
     \<lparr>version = ''Premiere Pro (Beta)@14.6.0+46'',
      shortVersion = ''Premiere Pro (Beta)@14.6.0+46'',
      dateCreated = ''2020-10-29T05:57:12Z'',
      firstEvent = Some ''2020-10-29T05:57:12Z'', lastEvent = Some ''2020-11-06T10:04:16Z'',
      newGroups = 33,
      projects = [\<lparr>slug = ''dva-premierepro'', platform = ''native'', hasHealthData = True\<rparr>]\<rparr>,
     \<lparr>version = ''14.0.3'',
      shortVersion = ''14.0.3'',
      dateCreated = ''2020-10-28T23:00:00Z'',
      firstEvent = None, lastEvent = None,
      newGroups = 0,
      projects = [\<lparr>slug = ''dva-premierepro'', platform = ''native'', hasHealthData = True\<rparr>]\<rparr>,
     \<lparr>version = ''Premiere Pro@14.3.0+38'',
      shortVersion = ''Premiere Pro@14.3.0+38'',
      dateCreated = ''2020-10-28T14:00:00Z'',
      firstEvent = None, lastEvent = None,
      newGroups = 0,
      projects = [\<lparr>slug = ''dva-premierepro'', platform = ''native'', hasHealthData = True\<rparr>]\<rparr>,
     \<lparr>version = ''Premiere Pro@14.6.0+45'',
      shortVersion = ''Premiere Pro@14.6.0+45'',
      dateCreated = ''2020-10-28T12:00:00Z'',
      firstEvent = Some ''2020-11-05T00:46:17Z'', lastEvent = Some ''2020-11-05T00:46:17Z'',
      newGroups = 0,
      projects = [\<lparr>slug = ''dva-premierepro'', platform = ''native'', hasHealthData = True\<rparr>]\<rparr>,
     \<lparr>version = ''Premiere Pro@1.5.34+48'',
      shortVersion = ''Premiere Pro@1.5.34+48'',
      dateCreated = ''2020-10-28T10:00:00Z'',
      firstEvent = Some ''2020-11-05T12:02:10Z'', lastEvent = Some ''2020-11-05T12:02:10Z'',
      newGroups = 1,
      projects = [\<lparr>slug = ''dva-premierepro'', platform = ''native'', hasHealthData = True\<rparr>]\<rparr>,
     \<lparr>version = ''Premiere Pro (Beta)@14.6.0+45'',
      shortVersion = ''Premiere Pro (Beta)@14.6.0+45'',
      dateCreated = ''2020-10-28T06:16:35Z'',
      firstEvent = Some ''2020-10-28T06:16:35Z'', lastEvent = Some ''2020-11-01T07:23:10Z'',
      newGroups = 3,
      projects = [\<lparr>slug = ''dva-premierepro'', platform = ''native'', hasHealthData = True\<rparr>]\<rparr>,
     \<lparr>version = ''Premiere Pro (Beta)@14.6.0+44'',
      shortVersion = ''Premiere Pro (Beta)@14.6.0+44'',
      dateCreated = ''2020-10-28T05:02:43Z'',
      firstEvent = Some ''2020-10-28T05:02:43Z'', lastEvent = Some ''2020-10-31T15:53:57Z'',
      newGroups = 6,
      projects = [\<lparr>slug = ''dva-premierepro'', platform = ''native'', hasHealthData = True\<rparr>]\<rparr>]"

text \<open>\<^verbatim>\<open>`${release.version}-${release.projects[0].slug}`\<close>\<close>

definition releaseKey :: "Release \<Rightarrow> error + string" where
  "releaseKey r =
     (case projects r of [] \<Rightarrow> Inl TypeError | p # ps \<Rightarrow> Inr (version r @ ''-'' @ slug p))"

text \<open>\<^verbatim>\<open>arr.map(f)\<close>, stopping at the first exception.\<close>

fun mapE :: "('a \<Rightarrow> error + 'b) \<Rightarrow> 'a list \<Rightarrow> error + 'b list" where
  "mapE f [] = Inr []"
| "mapE f (x # xs) =
     (case f x of
        Inl e \<Rightarrow> Inl e
      | Inr y \<Rightarrow> (case mapE f xs of Inl e \<Rightarrow> Inl e | Inr ys \<Rightarrow> Inr (y # ys)))"

definition renderInnerBody ::
  "(string \<Rightarrow> string) \<Rightarrow> (QueryValue \<Rightarrow> string) \<Rightarrow> QueryValue \<Rightarrow> (string \<Rightarrow> string)
     \<Rightarrow> Props \<Rightarrow> State \<Rightarrow> error + Element" where
  "renderInnerBody t getRelativeSummary DEFAULT_STATS_PERIOD toLowerCase props state =
     (if shouldShowLoadingIndicator state then Inr LoadingIndicator
      else let releases = renderInnerBody_releases
           in if releases = []
              then Inr (renderEmptyMessage t getRelativeSummary DEFAULT_STATS_PERIOD
                          toLowerCase props)
              else (case mapE (\<lambda>r. case releaseKey r of
                                      Inl e \<Rightarrow> Inl e
                                    | Inr k \<Rightarrow>
                                        Inr \<lparr>release = r,
                                             orgSlug = organizationSlug props,
                                             cardReloading = reloading state,
                                             cardKey = k,
                                             showHealthPlaceholders = loadingHealth state\<rparr>)
                           releases of
                      Inl e \<Rightarrow> Inl e
                    | Inr cards \<Rightarrow> Inr (ReleaseCards cards)))"

section \<open>Properties\<close>

subsection \<open>Commits grouped by repository\<close>

lemma reduce_snoc:
  "reduce f (xs @ [x]) acc = (case reduce f xs acc of Inl e \<Rightarrow> Inl e | Inr acc' \<Rightarrow> f acc' x)"
  by (induction xs arbitrary: acc) (auto split: sum.splits)

lemma commitsReducer_ordinary:
  assumes "\<not> reservedName (repositoryName t c)" and "\<not> hasOwn obj ''hasOwnProperty''"
  shows "commitsReducer t obj c =
     Inr (obj\<lparr>ownProps := (ownProps obj)(repositoryName t c \<mapsto>
            (case ownProps obj (repositoryName t c) of None \<Rightarrow> [] | Some b \<Rightarrow> b) @ [c])\<rparr>)"
  using assms
  by (cases "ownProps obj (repositoryName t c)")
     (simp_all add: commitsReducer_def callHasOwnProperty_def hasOwn_def setProperty_def
        getProperty_def reservedName_def Let_def split: option.splits)

lemma groupedCommits_Nil: "groupedCommits t [] = emptyObject"
  by (simp add: groupedCommits_def commitsOf_def emptyObject_def)

lemma groupedCommits_snoc:
  "groupedCommits t (cs @ [c]) =
     (groupedCommits t cs)\<lparr>ownProps := (ownProps (groupedCommits t cs))(repositoryName t c \<mapsto>
        (case ownProps (groupedCommits t cs) (repositoryName t c) of None \<Rightarrow> [] | Some b \<Rightarrow> b)
        @ [c])\<rparr>"
proof -
  have "(\<lambda>key. if commitsOf t key (cs @ [c]) = [] then None
              else Some (commitsOf t key (cs @ [c]))) =
        (ownProps (groupedCommits t cs))(repositoryName t c \<mapsto>
          (case ownProps (groupedCommits t cs) (repositoryName t c) of
             None \<Rightarrow> [] | Some b \<Rightarrow> b) @ [c])"
    by (rule ext) (simp add: groupedCommits_def commitsOf_def)
  then show ?thesis
    by (simp add: groupedCommits_def)
qed

lemma hasOwn_groupedCommits:
  "hasOwn (groupedCommits t cs) key \<longleftrightarrow> (\<exists>c \<in> set cs. repositoryName t c = key)"
  by (auto simp: hasOwn_def groupedCommits_def commitsOf_def filter_empty_conv)

lemma getCommitsByRepository_ordinary:
  "ordinaryKeys t cs \<Longrightarrow> getCommitsByRepository t cs = Inr (groupedCommits t cs)"
proof (induction cs rule: rev_induct)
  case Nil
  show ?case by (simp add: getCommitsByRepository_def groupedCommits_Nil)
next
  case (snoc c cs)
  then have cs: "ordinaryKeys t cs" and c: "\<not> reservedName (repositoryName t c)"
    by (simp_all add: ordinaryKeys_def)
  have "\<not> hasOwn (groupedCommits t cs) ''hasOwnProperty''"
    using cs by (auto simp: hasOwn_groupedCommits ordinaryKeys_def list_all_iff reservedName_def)
  with c have "commitsReducer t (groupedCommits t cs) c = Inr (groupedCommits t (cs @ [c]))"
    by (simp add: commitsReducer_ordinary groupedCommits_snoc)
  with snoc.IH [OF cs] show ?case
    by (simp add: getCommitsByRepository_def reduce_snoc)
qed

lemma in_commitsOf: "c \<in> set (commitsOf t k cs) \<longleftrightarrow> c \<in> set cs \<and> repositoryName t c = k"
  by (simp add: commitsOf_def)

lemma bucket_groupedCommits:
  "(ownProps (groupedCommits t cs) k = Some b) = (b = commitsOf t k cs \<and> b \<noteq> [])"
  by (auto simp: groupedCommits_def)

lemma count_list_filter_eq:
  "count_list (filter P xs) c = (if P c then count_list xs c else 0)"
  by (induction xs) auto

lemma repositoryName_lacks: "lacksRepository c \<Longrightarrow> repositoryName t c = t ''unknown''"
  by (auto simp: lacksRepository_def repositoryName_def split: option.splits)



text \<open>
  For lists without the reserved names the grouping is as the spec has it: the bucket
  of a key is the subsequence of the commits filed under it, every commit is in exactly
  one bucket, and a commit without repository name is in the bucket of \<^verbatim>\<open>unknown\<close>.
\<close>

lemma getCommitsByRepository_ordinary_buckets:
  assumes "ordinaryKeys t cs"
  shows "\<exists>obj. getCommitsByRepository t cs = Inr obj \<and>
       (\<forall>key bucket. ownProps obj key = Some bucket \<longrightarrow>
          bucket = filter (\<lambda>c. repositoryName t c = key) cs) \<and>
       (\<forall>c \<in> set cs. lacksRepository c \<longrightarrow>
          (\<exists>bucket. ownProps obj (t ''unknown'') = Some bucket \<and> c \<in> set bucket)) \<and>
       (\<forall>c \<in> set cs. \<exists>!key. \<exists>bucket. ownProps obj key = Some bucket \<and> c \<in> set bucket) \<and>
       (\<forall>key bucket c. ownProps obj key = Some bucket \<and> c \<in> set bucket \<longrightarrow>
          count_list bucket c = count_list cs c)"
proof -
  let ?obj = "groupedCommits t cs"
  note some = bucket_groupedCommits
  have 1: "getCommitsByRepository t cs = Inr ?obj"
    by (rule getCommitsByRepository_ordinary [OF assms])
  have 0: "bucket = filter (\<lambda>c. repositoryName t c = key) cs"
    if "ownProps ?obj key = Some bucket" for key bucket
    using that unfolding some by (simp add: commitsOf_def)
  have 2: "\<exists>bucket. ownProps ?obj (t ''unknown'') = Some bucket \<and> c \<in> set bucket"
    if "c \<in> set cs" "lacksRepository c" for c
  proof -
    have "c \<in> set (commitsOf t (t ''unknown'') cs)"
      using that by (simp add: in_commitsOf repositoryName_lacks)
    then show ?thesis unfolding some by auto
  qed
  have 3: "\<exists>!key. \<exists>bucket. ownProps ?obj key = Some bucket \<and> c \<in> set bucket"
    if "c \<in> set cs" for c
  proof (rule ex1I [where a = "repositoryName t c"])
    have "c \<in> set (commitsOf t (repositoryName t c) cs)"
      using that by (simp add: in_commitsOf)
    then show "\<exists>bucket. ownProps ?obj (repositoryName t c) = Some bucket \<and> c \<in> set bucket"
      unfolding some by auto
  next
    fix key
    assume "\<exists>bucket. ownProps ?obj key = Some bucket \<and> c \<in> set bucket"
    then have "c \<in> set (commitsOf t key cs)" unfolding some by auto
    then show "key = repositoryName t c" by (simp add: in_commitsOf)
  qed
  have 4: "count_list bucket c = count_list cs c"
    if "ownProps ?obj key = Some bucket \<and> c \<in> set bucket" for key bucket c
  proof -
    from that have b: "bucket = commitsOf t key cs" and "c \<in> set bucket"
      unfolding some by auto
    then have "repositoryName t c = key" by (simp add: in_commitsOf)
    with b show ?thesis by (simp add: commitsOf_def count_list_filter_eq)
  qed
  show ?thesis
  proof (intro exI conjI)
    show "getCommitsByRepository t cs = Inr ?obj" by (rule 1)
    show "\<forall>key bucket. ownProps ?obj key = Some bucket \<longrightarrow>
            bucket = filter (\<lambda>c. repositoryName t c = key) cs"
      using 0 by blast
    show "\<forall>c \<in> set cs. lacksRepository c \<longrightarrow>
            (\<exists>bucket. ownProps ?obj (t ''unknown'') = Some bucket \<and> c \<in> set bucket)"
      using 2 by blast
    show "\<forall>c \<in> set cs. \<exists>!key. \<exists>bucket. ownProps ?obj key = Some bucket \<and> c \<in> set bucket"
      using 3 by blast
    show "\<forall>key bucket c. ownProps ?obj key = Some bucket \<and> c \<in> set bucket \<longrightarrow>
            count_list bucket c = count_list cs c"
      using 4 by blast
  qed
qed

text \<open>
  Claim C5, at an input where the code departs from it. The second of three commits is
  of a repository named \<^verbatim>\<open>hasOwnProperty\<close>. Its bucket is stored under that name and
  hides the method, so the call \<^verbatim>\<open>commitsByRepository.hasOwnProperty(...)\<close> for the third
  commit throws, and no grouping is returned. The claim has the bucket of \<^verbatim>\<open>repoA\<close> hold
  the first and the third commit.
\<close>

theorem getCommitsByRepository_throws_after_hasOwnProperty:
  "getCommitsByRepository t
     [commitIn ''c1'' ''repoA'', commitIn ''c2'' ''hasOwnProperty'', commitIn ''c3'' ''repoA'']
   = Inl TypeError"
  by (simp add: getCommitsByRepository_def commitsReducer_def callHasOwnProperty_def
        hasOwn_def setProperty_def getProperty_def emptyObject_def repositoryName_def
        commitIn_def Let_def)

text \<open>
  Claim C6, at inputs where the code departs from it. After a commit of a repository
  named \<^verbatim>\<open>hasOwnProperty\<close>, a commit without repository reference makes the function
  throw instead of landing in the bucket of \<^verbatim>\<open>unknown\<close>. A commit of a repository named
  \<^verbatim>\<open>__proto__\<close> is in no bucket: the assignment replaces the prototype of the result,
  which has no own property.
\<close>

theorem getCommitsByRepository_not_total:
  "getCommitsByRepository t
     [commitIn ''c1'' ''hasOwnProperty'', \<lparr>commitId = ''c2'', repository = None\<rparr>]
   = Inl TypeError \<and>
   getCommitsByRepository t [commitIn ''c1'' ''__proto__''] =
     Inr \<lparr>ownProps = Map.empty, proto = Some [commitIn ''c1'' ''__proto__'']\<rparr>"
  by (simp add: getCommitsByRepository_def commitsReducer_def callHasOwnProperty_def
        hasOwn_def setProperty_def getProperty_def emptyObject_def repositoryName_def
        commitIn_def Let_def)




subsection \<open>File changes grouped by repository and file\<close>





lemma hasOwn_emptyObject: "\<not> hasOwn emptyObject key"
  by (simp add: hasOwn_def emptyObject_def)

















text \<open>
  Claim C7, at inputs where the code departs from it. A change in a repository named
  \<^verbatim>\<open>hasOwnProperty\<close>, or to a file of that name, stores an object under that name, which
  hides the method; the call \<^verbatim>\<open>hasOwnProperty(...)\<close> for the next change, on the grouping
  or on the object of the same repository, throws. The claim has every change get the
  bucket of its repository and the entry of its file.
\<close>

theorem getFilesByRepository_throws_after_hasOwnProperty:
  "getFilesByRepository [changeTo ''hasOwnProperty'' ''a.py'', changeTo ''repo'' ''a.py''] =
     Inl TypeError \<and>
   getFilesByRepository [changeTo ''repo'' ''hasOwnProperty'', changeTo ''repo'' ''a.py''] =
     Inl TypeError"
  by (simp add: getFilesByRepository_def filesReducer_def callHasOwnProperty_def
        hasOwn_def setProperty_def getProperty_def emptyObject_def changeTo_def Let_def)





subsection \<open>Archiving a release\<close>

text \<open>
  Claim C9. When the POST of \<^verbatim>\<open>archiveRelease\<close> is rejected with a response body whose
  \<^verbatim>\<open>detail\<close> is \<open>d\<close>, the error toast shows \<open>d\<close>; when it is rejected with no body or
  no \<^verbatim>\<open>detail\<close>, the toast shows the localised fallback; when it is resolved, a success
  toast is shown and the browser is sent to the releases page of the organization. In
  every case exactly one request is made.
\<close>

theorem archiveRelease_effects:
  "(\<forall>err body d.
      api (releasesPath orgId) ReleaseStatus_Archived [] ver = Rejected err \<and>
      responseJSON err = Some body \<and> detail body = Some d \<longrightarrow>
      archiveRelease t api orgId ver =
        [AddLoadingMessage (t ''Archiving Release...''),
         Post (''/organizations/'' @ orgId @ ''/releases/'') ''archived'' [] ver,
         AddErrorMessage d]) \<and>
   (\<forall>err.
      api (releasesPath orgId) ReleaseStatus_Archived [] ver = Rejected err \<and>
      (responseJSON err = None \<or> (\<exists>body. responseJSON err = Some body \<and> detail body = None)) \<longrightarrow>
      archiveRelease t api orgId ver =
        [AddLoadingMessage (t ''Archiving Release...''),
         Post (''/organizations/'' @ orgId @ ''/releases/'') ''archived'' [] ver,
         AddErrorMessage (t ''Release could not be be archived.'')]) \<and>
   (api (releasesPath orgId) ReleaseStatus_Archived [] ver = Resolved \<longrightarrow>
      archiveRelease t api orgId ver =
        [AddLoadingMessage (t ''Archiving Release...''),
         Post (''/organizations/'' @ orgId @ ''/releases/'') ''archived'' [] ver,
         AddSuccessMessage (t ''Release was successfully archived.''),
         HistoryPush (''/organizations/'' @ orgId @ ''/releases/'')]) \<and>
   length (filter isPost (archiveRelease t api orgId ver)) = 1"
proof -
  have post: "length (filter isPost (archiveRelease t api orgId ver)) = 1"
    by (cases "api (releasesPath orgId) ReleaseStatus_Archived [] ver")
       (simp_all add: archiveRelease_def)
  show ?thesis
    using post
    by (auto simp: archiveRelease_def errorMessage_def releasesPath_def ReleaseStatus_Archived_def)
qed

theorem archiveRelease_effects_witness:
  "archiveRelease (\<lambda>s. s)
     (\<lambda>path st ps v. Rejected \<lparr>responseJSON = Some \<lparr>detail = Some ''X''\<rparr>\<rparr>) ''acme'' ''1.0'' =
     [AddLoadingMessage ''Archiving Release...'',
      Post ''/organizations/acme/releases/'' ''archived'' [] ''1.0'',
      AddErrorMessage ''X''] \<and>
   archiveRelease (\<lambda>s. s) (\<lambda>path st ps v. Rejected \<lparr>responseJSON = None\<rparr>) ''acme'' ''1.0'' =
     [AddLoadingMessage ''Archiving Release...'',
      Post ''/organizations/acme/releases/'' ''archived'' [] ''1.0'',
      AddErrorMessage ''Release could not be be archived.''] \<and>
   archiveRelease (\<lambda>s. s) (\<lambda>path st ps v. Resolved) ''acme'' ''1.0'' =
     [AddLoadingMessage ''Archiving Release...'',
      Post ''/organizations/acme/releases/'' ''archived'' [] ''1.0'',
      AddSuccessMessage ''Release was successfully archived.'',
      HistoryPush ''/organizations/acme/releases/'']"
  using
    archiveRelease_effects [of "\<lambda>path st ps v. Rejected \<lparr>responseJSON = Some \<lparr>detail = Some ''X''\<rparr>\<rparr>"
      "''acme''" "''1.0''" "\<lambda>s. s"]
    archiveRelease_effects [of "\<lambda>path st ps v. Rejected \<lparr>responseJSON = None\<rparr>"
      "''acme''" "''1.0''" "\<lambda>s. s"]
    archiveRelease_effects [of "\<lambda>path st ps v. Resolved" "''acme''" "''1.0''" "\<lambda>s. s"]
  by simp

subsection \<open>Endpoints and the response handler\<close>

lemma getSort_date_endpoints:
  "getSort props = ''date'' \<Longrightarrow>
   getEndpoints props =
     [(''releasesWithHealth'', releasesPath (organizationSlug props),
       \<lparr>picked = locationQuery props |`
                   {''project'', ''environment'', ''cursor'', ''query'', ''sort'',
                    ''healthStatsPeriod'', ''healthStat''},
        summaryStatsPeriod = locationQuery props ''statsPeriod'',
        per_page = 25, health = 1, flatten = 0\<rparr>),
      (''releasesWithoutHealth'', releasesPath (organizationSlug props),
       \<lparr>picked = locationQuery props |`
                   {''project'', ''environment'', ''cursor'', ''query'', ''sort'',
                    ''healthStatsPeriod'', ''healthStat''},
        summaryStatsPeriod = locationQuery props ''statsPeriod'',
        per_page = 25, health = 0, flatten = 0\<rparr>)]"
  by (simp add: getEndpoints_def Let_def)

lemma getSort_other_endpoints:
  "getSort props \<noteq> ''date'' \<Longrightarrow>
   getEndpoints props =
     [(''releasesWithHealth'', releasesPath (organizationSlug props),
       \<lparr>picked = locationQuery props |`
                   {''project'', ''environment'', ''cursor'', ''query'', ''sort'',
                    ''healthStatsPeriod'', ''healthStat''},
        summaryStatsPeriod = locationQuery props ''statsPeriod'',
        per_page = 25, health = 1, flatten = 1\<rparr>)]"
  by (simp add: getEndpoints_def Let_def)

lemma onRequestSuccess_health:
  "stateKey resp = ''releasesWithHealth'' \<Longrightarrow>
   onRequestSuccess state resp =
     state\<lparr>reloading := False, loading := False, loadingHealth := False,
            releases := Some (data resp),
            releasesPageLinks := (case jqXHR resp of None \<Rightarrow> None | Some h \<Rightarrow> h ''Link'')\<rparr>"
  by (simp add: onRequestSuccess_def)

lemma onRequestSuccess_list:
  "stateKey resp = ''releasesWithoutHealth'' \<Longrightarrow>
   onRequestSuccess state resp =
     (if remainingRequests state = Some 1
      then state\<lparr>reloading := False, loading := False, loadingHealth := True,
                 releases := Some (data resp),
                 releasesPageLinks := (case jqXHR resp of None \<Rightarrow> None | Some h \<Rightarrow> h ''Link'')\<rparr>
      else state)"
  by (simp add: onRequestSuccess_def)

text \<open>
  Claim C3. For a sort key other than \<^verbatim>\<open>date\<close>, \<^verbatim>\<open>getEndpoints\<close> gives exactly one
  endpoint, \<^verbatim>\<open>releasesWithHealth\<close> with \<^verbatim>\<open>health = 1\<close> and \<^verbatim>\<open>flatten = 1\<close>, and the response
  to it is committed in every state: its payload becomes \<^verbatim>\<open>releases\<close>, and \<^verbatim>\<open>loading\<close>,
  \<^verbatim>\<open>reloading\<close> and \<^verbatim>\<open>loadingHealth\<close> are cleared. For the sort key \<^verbatim>\<open>date\<close> it gives
  exactly two endpoints, the second being \<^verbatim>\<open>releasesWithoutHealth\<close> with \<^verbatim>\<open>health = 0\<close>.
\<close>

theorem getEndpoints_by_sort:
  "(getSort props \<noteq> ''date'' \<longrightarrow>
      (\<exists>query. getEndpoints props =
                 [(''releasesWithHealth'', releasesPath (organizationSlug props), query)] \<and>
               health query = 1 \<and> flatten query = 1) \<and>
      (\<forall>endpoint \<in> set (getEndpoints props). \<forall>state resp.
         stateKey resp = fst endpoint \<longrightarrow>
           releases (onRequestSuccess state resp) = Some (data resp) \<and>
           \<not> loading (onRequestSuccess state resp) \<and>
           \<not> reloading (onRequestSuccess state resp) \<and>
           \<not> loadingHealth (onRequestSuccess state resp))) \<and>
   (getSort props = ''date'' \<longrightarrow>
      (\<exists>query listQuery.
         getEndpoints props =
           [(''releasesWithHealth'', releasesPath (organizationSlug props), query),
            (''releasesWithoutHealth'', releasesPath (organizationSlug props), listQuery)] \<and>
         health query = 1 \<and> health listQuery = 0))"
proof (intro conjI impI)
  assume other: "getSort props \<noteq> ''date''"
  show "\<exists>query. getEndpoints props =
                 [(''releasesWithHealth'', releasesPath (organizationSlug props), query)] \<and>
               health query = 1 \<and> flatten query = 1"
    unfolding getSort_other_endpoints [OF other] by simp
  show "\<forall>endpoint \<in> set (getEndpoints props). \<forall>state resp.
         stateKey resp = fst endpoint \<longrightarrow>
           releases (onRequestSuccess state resp) = Some (data resp) \<and>
           \<not> loading (onRequestSuccess state resp) \<and>
           \<not> reloading (onRequestSuccess state resp) \<and>
           \<not> loadingHealth (onRequestSuccess state resp)"
    unfolding getSort_other_endpoints [OF other] by (simp add: onRequestSuccess_health)
next
  assume date: "getSort props = ''date''"
  show "\<exists>query listQuery.
         getEndpoints props =
           [(''releasesWithHealth'', releasesPath (organizationSlug props), query),
            (''releasesWithoutHealth'', releasesPath (organizationSlug props), listQuery)] \<and>
         health query = 1 \<and> health listQuery = 0"
    unfolding getSort_date_endpoints [OF date] by simp
qed

theorem getEndpoints_by_sort_witness:
  "length (getEndpoints \<lparr>organizationSlug = ''acme'',
                         locationQuery = [''sort'' \<mapsto> QString ''crash_free_users'']\<rparr>) = 1 \<and>
   releases (onRequestSuccess
      \<lparr>releases = None, loadingHealth = False, loading = True, reloading = False,
       remainingRequests = Some 0, releasesPageLinks = None\<rparr>
      \<lparr>stateKey = ''releasesWithHealth'', data = [], jqXHR = None\<rparr>) = Some [] \<and>
   length (getEndpoints \<lparr>organizationSlug = ''acme'', locationQuery = Map.empty\<rparr>) = 2"
proof -
  have other: "getSort \<lparr>organizationSlug = ''acme'',
                        locationQuery = [''sort'' \<mapsto> QString ''crash_free_users'']\<rparr> \<noteq> ''date''"
    by (simp add: getSort_def)
  have date: "getSort \<lparr>organizationSlug = ''acme'', locationQuery = Map.empty\<rparr> = ''date''"
    by (simp add: getSort_def)
  show ?thesis
    using other date
      getEndpoints_by_sort [of "\<lparr>organizationSlug = ''acme'',
                        locationQuery = [''sort'' \<mapsto> QString ''crash_free_users'']\<rparr>"]
      getEndpoints_by_sort [of "\<lparr>organizationSlug = ''acme'', locationQuery = Map.empty\<rparr>"]
    by (auto simp: onRequestSuccess_def)
qed

text \<open>
  Claim C2. For the sort key \<^verbatim>\<open>date\<close> two requests are issued. If the health response
  arrives first it is committed with \<^verbatim>\<open>loadingHealth = false\<close>, and the list-only response
  that arrives later changes nothing but the counter. If the list-only response arrives
  first it is committed with \<^verbatim>\<open>loadingHealth = true\<close>, and the health response that arrives
  later is committed with \<^verbatim>\<open>loadingHealth = false\<close>. The final states of the two orders
  are equal.
\<close>

theorem date_sort_final_state:
  assumes "getSort props = ''date''"
    and "stateKey healthResp = ''releasesWithHealth''"
    and "stateKey listResp = ''releasesWithoutHealth''"
  shows
    "(let started = fst (fetchData props state);
          healthFirst = handleRequestSuccess started healthResp;
          healthThenList = handleRequestSuccess healthFirst listResp;
          listFirst = handleRequestSuccess started listResp;
          listThenHealth = handleRequestSuccess listFirst healthResp
      in length (snd (fetchData props state)) = 2 \<and>
         releases healthFirst = Some (data healthResp) \<and> \<not> loadingHealth healthFirst \<and>
         \<not> loading healthFirst \<and> \<not> reloading healthFirst \<and>
         healthThenList = healthFirst\<lparr>remainingRequests := Some 0\<rparr> \<and>
         releases listFirst = Some (data listResp) \<and> loadingHealth listFirst \<and>
         \<not> loading listFirst \<and> \<not> reloading listFirst \<and>
         releases listThenHealth = Some (data healthResp) \<and> \<not> loadingHealth listThenHealth \<and>
         \<not> loading listThenHealth \<and> \<not> reloading listThenHealth \<and>
         listThenHealth = healthThenList)"
  using assms
  by (simp add: fetchData_def handleRequestSuccess_def getSort_date_endpoints
        onRequestSuccess_health onRequestSuccess_list Let_def)

theorem date_sort_final_state_witness:
  "getSort dateProps = ''date'' \<and>
   (let started = fst (fetchData dateProps idleState);
        listFirst = handleRequestSuccess started listResponse;
        healthThenList =
          handleRequestSuccess (handleRequestSuccess started healthResponse) listResponse;
        listThenHealth = handleRequestSuccess listFirst healthResponse
    in releases listFirst = Some [exampleRelease False] \<and> loadingHealth listFirst \<and>
       releases healthThenList = Some [exampleRelease True] \<and>
       \<not> loadingHealth healthThenList \<and>
       listThenHealth = healthThenList)"
proof -
  have date: "getSort dateProps = ''date''"
    by (simp add: getSort_def dateProps_def)
  have keys: "stateKey healthResponse = ''releasesWithHealth''"
    "stateKey listResponse = ''releasesWithoutHealth''"
    by (simp_all add: healthResponse_def listResponse_def)
  have payloads: "data healthResponse = [exampleRelease True]"
    "data listResponse = [exampleRelease False]"
    by (simp_all add: healthResponse_def listResponse_def)
  from date payloads date_sort_final_state [OF date keys, where state = idleState]
  show ?thesis
    by (simp add: Let_def)
qed



subsection \<open>Rendering the body\<close>

lemma mapE_Inr:
  "(\<And>x. x \<in> set xs \<Longrightarrow> f x = Inr (g x)) \<Longrightarrow> mapE f xs = Inr (map g xs)"
  by (induction xs) simp_all

lemma renderInnerBody_releases_projects:
  "r \<in> set renderInnerBody_releases \<Longrightarrow>
     projects r = [\<lparr>slug = ''dva-premierepro'', platform = ''native'', hasHealthData = True\<rparr>]"
  unfolding renderInnerBody_releases_def by auto

lemma renderInnerBody_releases_length: "length renderInnerBody_releases = 25"
  unfolding renderInnerBody_releases_def by simp

lemma renderInnerBody_eq:
  "renderInnerBody t getRelativeSummary DEFAULT_STATS_PERIOD toLowerCase props state =
     (if shouldShowLoadingIndicator state then Inr LoadingIndicator
      else Inr (ReleaseCards
             (map (\<lambda>r. \<lparr>release = r, orgSlug = organizationSlug props,
                         cardReloading = reloading state,
                         cardKey = version r @ ''-dva-premierepro'',
                         showHealthPlaceholders = loadingHealth state\<rparr>)
                renderInnerBody_releases)))"
proof -
  have ne: "renderInnerBody_releases \<noteq> []"
    using renderInnerBody_releases_length by auto
  have "mapE (\<lambda>r. case releaseKey r of
                    Inl e \<Rightarrow> Inl e
                  | Inr k \<Rightarrow>
                      Inr \<lparr>release = r, orgSlug = organizationSlug props,
                           cardReloading = reloading state, cardKey = k,
                           showHealthPlaceholders = loadingHealth state\<rparr>)
          renderInnerBody_releases =
        Inr (map (\<lambda>r. \<lparr>release = r, orgSlug = organizationSlug props,
                         cardReloading = reloading state,
                         cardKey = version r @ ''-dva-premierepro'',
                         showHealthPlaceholders = loadingHealth state\<rparr>)
                renderInnerBody_releases)"
    by (rule mapE_Inr) (simp add: releaseKey_def renderInnerBody_releases_projects)
  then show ?thesis
    using ne by (simp add: renderInnerBody_def Let_def)
qed

lemma renderEmptyMessage_search:
  "getQuery props = Some q \<Longrightarrow> q \<noteq> [] \<Longrightarrow>
   renderEmptyMessage t getRelativeSummary DEFAULT_STATS_PERIOD toLowerCase props =
     EmptyStateWarning (t ''There are no releases that match'' @ '': '' @ [CHR 39] @ q @ [CHR 39] @ ''.'')"
  by (simp add: renderEmptyMessage_def Let_def)

text \<open>
  Claim C4, at the input where the code departs from it. The committed release list is
  empty, nothing is loading and the search query is \<^verbatim>\<open>foo\<close>. \<^verbatim>\<open>renderEmptyMessage\<close>
  gives the message that no releases match \<^verbatim>\<open>foo\<close>, but \<^verbatim>\<open>renderInnerBody\<close> does not
  reach it: it reads its releases from the array literal, not from the state, and
  renders 25 cards.
\<close>

theorem renderInnerBody_empty_search:
  "(let props = \<lparr>organizationSlug = ''acme'', locationQuery = [''query'' \<mapsto> QString ''foo'']\<rparr>;
        state = \<lparr>releases = Some [], loadingHealth = False, loading = False,
                 reloading = False, remainingRequests = Some 0, releasesPageLinks = None\<rparr>
    in renderEmptyMessage (\<lambda>s. s) getRelativeSummary DEFAULT_STATS_PERIOD toLowerCase props =
         EmptyStateWarning (''There are no releases that match: '' @ [CHR 39] @ ''foo'' @ [CHR 39] @ ''.'') \<and>
       \<not> shouldShowLoadingIndicator state \<and>
       (\<exists>cards. renderInnerBody (\<lambda>s. s) getRelativeSummary DEFAULT_STATS_PERIOD toLowerCase
                  props state = Inr (ReleaseCards cards) \<and> length cards = 25))"
  by (simp add: renderInnerBody_eq renderInnerBody_releases_length Let_def
        shouldShowLoadingIndicator_def renderEmptyMessage_def getQuery_def)

end
